theory Spec2Isabelle
  imports Main
begin

section \<open>Values\<close>

text \<open>
  The three settings are a boolean, a number of minutes and a string. The numbers the
  extension handles are the default \<open>20\<close> and the results of \<open>parseInt\<close> on the interval
  field (\<open>App.tsx\<close>, the \<open>onChange\<close> of the interval input): an integer, or \<open>NaN\<close> when
  the field holds no number, as when it is emptied.
\<close>

datatype number = Num int | NaN

datatype prim = PBool bool | PNum number | PStr string

text \<open>
  An \<open>async\<close> function returns a promise. A call site that awaits it gets the value the
  promise resolves to; a call site that does not await holds the promise object itself.
  \<open>Promise v\<close> is the promise that resolves to \<open>v\<close>.
\<close>

datatype jsval = Prim prim | Promise prim

text \<open>The conversion to boolean that an \<open>if\<close> applies: every object is truthy.\<close>

fun truthy :: "jsval \<Rightarrow> bool" where
  "truthy (Prim (PBool b)) = b"
| "truthy (Prim (PNum (Num n))) = (n \<noteq> 0)"
| "truthy (Prim (PNum NaN)) = False"
| "truthy (Prim (PStr s)) = (s \<noteq> [])"
| "truthy (Promise v) = True"

text \<open>
  The operator \<open>!==\<close> on primitive values: different types or different values, and
  \<open>NaN\<close> differs from every value, itself included.
\<close>

definition strict_neq :: "prim \<Rightarrow> prim \<Rightarrow> bool" where
  "strict_neq a b = (a = PNum NaN \<or> b = PNum NaN \<or> a \<noteq> b)"


section \<open>The host: storage, alarms, notifications, console\<close>

record alarm =
  name :: string
  scheduledTime :: int
  periodInMinutes :: number

text \<open>
  The calls made to the host, in the order they are issued. The arguments of
  \<open>NotificationsCreate\<close> are the fields \<open>type\<close>, \<open>iconUrl\<close>, \<open>title\<close> and \<open>message\<close>
  of the options object.
\<close>

datatype call =
    StorageGet string
  | StorageSet string prim
  | AlarmsClear string
  | AlarmsCreate string jsval
  | AlarmsGet string
  | RuntimeGetURL string
  | NotificationsCreate string string string prim
  | ConsoleError string

record world =
  storage :: "string \<rightharpoonup> prim"
  alarms :: "string \<rightharpoonup> alarm"
  origin :: string
  calls :: "call list"

text \<open>\<open>browser.storage.local.get(key)\<close>: the stored record restricted to the key.\<close>

definition storage_local_get :: "string \<Rightarrow> world \<Rightarrow> (string \<rightharpoonup> prim) \<times> world" where
  "storage_local_get k w =
     ((\<lambda>x. if x = k then storage w x else None), w\<lparr>calls := calls w @ [StorageGet k]\<rparr>)"

text \<open>
  \<open>browser.storage.local.set({key: value})\<close>: overwrites the key. The value is kept as
  given, a \<open>NaN\<close> too; a store that kept \<open>null\<close> in its place would compare unequal to
  the saved \<open>NaN\<close> just the same.
\<close>

definition storage_local_set :: "string \<Rightarrow> prim \<Rightarrow> world \<Rightarrow> world" where
  "storage_local_set k v w =
     w\<lparr>storage := (storage w)(k \<mapsto> v), calls := calls w @ [StorageSet k v]\<rparr>"

text \<open>\<open>browser.alarms.clear(name)\<close>: removes the alarm of that name, if any.\<close>

definition alarms_clear :: "string \<Rightarrow> world \<Rightarrow> world" where
  "alarms_clear n w =
     w\<lparr>alarms := (alarms w)(n := None), calls := calls w @ [AlarmsClear n]\<rparr>"

text \<open>
  \<open>browser.alarms.create(name, {periodInMinutes})\<close>: the browser installs a recurring
  timer of the given name and period, with the number as it is given. The time of the
  first fire is chosen by the host and is the parameter \<open>sched\<close>. The host checks the
  type of its arguments: a \<open>periodInMinutes\<close> that is not a number, such as a promise,
  is refused and no alarm is installed. The call is in the trace either way.
\<close>

definition alarms_create :: "string \<Rightarrow> jsval \<Rightarrow> int \<Rightarrow> world \<Rightarrow> world" where
  "alarms_create n period sched w =
     (case period of
        Prim (PNum p) \<Rightarrow>
          w\<lparr>alarms := (alarms w)(n \<mapsto> \<lparr>name = n, scheduledTime = sched, periodInMinutes = p\<rparr>),
            calls := calls w @ [AlarmsCreate n period]\<rparr>
      | _ \<Rightarrow> w\<lparr>calls := calls w @ [AlarmsCreate n period]\<rparr>)"

text \<open>\<open>browser.alarms.get(name)\<close>: the alarm, or \<open>undefined\<close> (here \<open>None\<close>).\<close>

definition alarms_get :: "string \<Rightarrow> world \<Rightarrow> alarm option \<times> world" where
  "alarms_get n w = (alarms w n, w\<lparr>calls := calls w @ [AlarmsGet n]\<rparr>)"

text \<open>\<open>browser.runtime.getURL(path)\<close>: the path under the extension's origin.\<close>

definition runtime_getURL :: "string \<Rightarrow> world \<Rightarrow> string \<times> world" where
  "runtime_getURL p w = (origin w @ p, w\<lparr>calls := calls w @ [RuntimeGetURL p]\<rparr>)"

definition notifications_create :: "string \<Rightarrow> string \<Rightarrow> string \<Rightarrow> prim \<Rightarrow> world \<Rightarrow> world" where
  "notifications_create ty icon ti msg w =
     w\<lparr>calls := calls w @ [NotificationsCreate ty icon ti msg]\<rparr>"

definition console_error :: "string \<Rightarrow> world \<Rightarrow> world" where
  "console_error s w = w\<lparr>calls := calls w @ [ConsoleError s]\<rparr>"


section \<open>The settings store (background.js and App.tsx)\<close>

text \<open>
  The three getters are written twice, in \<open>background.js\<close> and in \<open>App.tsx\<close>, with the
  same body. Each returns the value its promise resolves to, and the world after the
  storage call. \<open>Object.keys(storageResp).includes(key)\<close> is the test that the key is
  in the domain of the answer.
\<close>

definition getEnabled :: "world \<Rightarrow> prim \<times> world" where
  "getEnabled w =
     (let (storageResp, w1) = storage_local_get ''enabled'' w in
      case storageResp ''enabled'' of
        None \<Rightarrow> (PBool False, w1)
      | Some v \<Rightarrow> (v, w1))"

definition getInterval :: "world \<Rightarrow> prim \<times> world" where
  "getInterval w =
     (let (storageResp, w1) = storage_local_get ''interval'' w in
      case storageResp ''interval'' of
        None \<Rightarrow> (PNum (Num 20), w1)
      | Some v \<Rightarrow> (v, w1))"

definition getMessage :: "world \<Rightarrow> prim \<times> world" where
  "getMessage w =
     (let (storageResp, w1) = storage_local_get ''message'' w in
      case storageResp ''message'' of
        None \<Rightarrow> (PStr ''Time to give your eyes a break!'', w1)
      | Some v \<Rightarrow> (v, w1))"

definition setEnabled :: "bool \<Rightarrow> world \<Rightarrow> world" where
  "setEnabled v w = storage_local_set ''enabled'' (PBool v) w"

definition setIntervalStorage :: "number \<Rightarrow> world \<Rightarrow> world" where
  "setIntervalStorage v w = storage_local_set ''interval'' (PNum v) w"

definition setMessage :: "string \<Rightarrow> world \<Rightarrow> world" where
  "setMessage v w = storage_local_set ''message'' (PStr v) w"


section \<open>The background process (background.js)\<close>

definition createNotification :: "string \<Rightarrow> prim \<Rightarrow> world \<Rightarrow> world" where
  "createNotification ti msg w =
     (let (url, w1) = runtime_getURL ''logo48.png'' w in
      notifications_create ''basic'' url ti msg w1)"

text \<open>
  \<open>startupHandler\<close> calls \<open>getEnabled()\<close> and \<open>getInterval()\<close> without \<open>await\<close>: the
  storage calls are issued, and the local constants \<open>enabled\<close> and \<open>interval\<close> hold the
  promises.
\<close>

definition startupHandler :: "int \<Rightarrow> world \<Rightarrow> world" where
  "startupHandler sched w =
     (let (e, w1) = getEnabled w;
          enabled = Promise e in
      if truthy enabled then
        let (i, w2) = getInterval w1;
            interval = Promise i;
            w3 = alarms_clear ''eye-break-notification'' w2 in
        alarms_create ''eye-break-notification'' interval sched w3
      else w1)"

definition alarmHandler :: "alarm \<Rightarrow> world \<Rightarrow> world" where
  "alarmHandler alarmInfo w =
     (let alarmName = name alarmInfo;
          w1 = (if alarmName \<noteq> ''eye-break-notification''
                then console_error (''Unexpected alarm name: '' @ alarmName) w
                else w);
          (msg, w2) = getMessage w1 in
      createNotification ''Eye Break!'' msg w2)"


section \<open>The settings view (App.tsx)\<close>

record ui_state =
  enabled :: bool
  interval :: number
  message :: string
  nextTime :: int

definition getNextAlarmTime :: "world \<Rightarrow> int \<times> world" where
  "getNextAlarmTime w =
     (let (alarmInfo, w1) = alarms_get ''eye-break-notification'' w in
      case alarmInfo of
        None \<Rightarrow> (0, w1)
      | Some a \<Rightarrow> (scheduledTime a, w1))"

text \<open>
  \<open>handleSave\<close>: \<open>sched\<close> is the first fire time the host gives to an alarm created
  during the save, \<open>now\<close> is \<open>new Date().getTime()\<close> when the next alarm time arrives.
  The three setters and \<open>alarms.create\<close> are not awaited; the host serves the calls in
  the order they are issued.
\<close>

definition handleSave :: "ui_state \<Rightarrow> int \<Rightarrow> int \<Rightarrow> world \<Rightarrow> ui_state \<times> world" where
  "handleSave ui sched now w =
     (let (prevEnabled, w1) = getEnabled w;
          (prevInterval, w2) = getInterval w1;
          (prevMessage, w3) = getMessage w2;
          w4 = setEnabled (enabled ui) w3;
          w5 = setIntervalStorage (interval ui) w4;
          w6 = setMessage (message ui) w5 in
      if strict_neq prevEnabled (PBool (enabled ui)) \<or>
         strict_neq prevInterval (PNum (interval ui)) \<or>
         strict_neq prevMessage (PStr (message ui))
      then
        let w7 = alarms_clear ''eye-break-notification'' w6;
            w8 = (if enabled ui
                  then alarms_create ''eye-break-notification''
                         (Prim (PNum (interval ui))) sched w7
                  else w7);
            (nextAlarm, w9) = getNextAlarmTime w8 in
        (ui\<lparr>nextTime := nextAlarm - now\<rparr>, w9)
      else (ui, w6))"

text \<open>The body of the polling effect: read the next alarm time, store the difference.\<close>

definition refreshNextTime :: "int \<Rightarrow> ui_state \<Rightarrow> world \<Rightarrow> ui_state \<times> world" where
  "refreshNextTime now ui w =
     (let (nextAlarm, w1) = getNextAlarmTime w in
      (ui\<lparr>nextTime := nextAlarm - now\<rparr>, w1))"

text \<open>\<open>String(n)\<close> for a natural number, and \<open>padStart(2, "0")\<close>.\<close>

fun digit :: "nat \<Rightarrow> char" where
  "digit n = char_of (48 + n)"

fun String_of :: "nat \<Rightarrow> string" where
  "String_of n = (if n < 10 then [digit n] else String_of (n div 10) @ [digit (n mod 10)])"

definition padStart2 :: "string \<Rightarrow> string" where
  "padStart2 s = replicate (2 - length s) (CHR ''0'') @ s"

text \<open>
  The countdown box of the view: rendered only when \<open>nextTime > 0\<close>, as minutes and
  seconds; \<open>None\<close> is the view without the box.
\<close>

definition countdown :: "int \<Rightarrow> string option" where
  "countdown t =
     (if t > 0
      then Some (padStart2 (String_of (nat (t div 1000 div 60))) @ '':'' @
                 padStart2 (String_of (nat ((t div 1000) mod 60))))
      else None)"


section \<open>Reachable states\<close>

text \<open>
  A fresh installation has an empty store and no alarm. From there the background
  process starts up, the user saves from the view, alarms fire and the view polls.
\<close>

inductive reachable :: "world \<Rightarrow> bool" where
  fresh: "storage w = Map.empty \<Longrightarrow> alarms w = Map.empty \<Longrightarrow> reachable w"
| startup: "reachable w \<Longrightarrow> reachable (startupHandler sched w)"
| save: "reachable w \<Longrightarrow> reachable (snd (handleSave ui sched now w))"
| fire: "reachable w \<Longrightarrow> reachable (alarmHandler alarmInfo w)"
| poll: "reachable w \<Longrightarrow> reachable (snd (refreshNextTime now ui w))"


section \<open>Auxiliary notions for the statements and proofs\<close>

text \<open>The condition of \<open>handleSave\<close>, on the values the getters return.\<close>

definition changed :: "ui_state \<Rightarrow> world \<Rightarrow> bool" where
  "changed ui w \<longleftrightarrow>
     strict_neq (fst (getEnabled w)) (PBool (enabled ui)) \<or>
     strict_neq (fst (getInterval w)) (PNum (interval ui)) \<or>
     strict_neq (fst (getMessage w)) (PStr (message ui))"

text \<open>The store after the three setters, and the six storage calls of every save.\<close>

definition saved_storage :: "ui_state \<Rightarrow> world \<Rightarrow> (string \<rightharpoonup> prim)" where
  "saved_storage ui w =
     (storage w)(''enabled'' \<mapsto> PBool (enabled ui), ''interval'' \<mapsto> PNum (interval ui),
                 ''message'' \<mapsto> PStr (message ui))"

definition save_prefix :: "ui_state \<Rightarrow> call list" where
  "save_prefix ui =
     [StorageGet ''enabled'', StorageGet ''interval'', StorageGet ''message'',
      StorageSet ''enabled'' (PBool (enabled ui)),
      StorageSet ''interval'' (PNum (interval ui)),
      StorageSet ''message'' (PStr (message ui))]"

text \<open>
  The invariant carried through the reachable states: only the one alarm name is in
  use, the stored \<open>enabled\<close> is a boolean, and an alarm that exists agrees with the
  stored settings.
\<close>

definition consistent :: "world \<Rightarrow> bool" where
  "consistent w \<longleftrightarrow>
     dom (alarms w) \<subseteq> {''eye-break-notification''} \<and>
     (\<exists>b. fst (getEnabled w) = PBool b) \<and>
     (\<forall>a. alarms w ''eye-break-notification'' = Some a \<longrightarrow>
        fst (getEnabled w) = PBool True \<and> fst (getInterval w) = PNum (periodInMinutes a))"

text \<open>Concrete states for the instances below.\<close>

definition world_fresh :: world where
  "world_fresh =
     \<lparr>storage = Map.empty, alarms = Map.empty,
      origin = ''moz-extension://eye-break/'', calls = []\<rparr>"

definition ui_five :: ui_state where
  "ui_five = \<lparr>enabled = True, interval = Num 5, message = ''Look away'', nextTime = 0\<rparr>"

definition world_disabled_alarm :: world where
  "world_disabled_alarm =
     \<lparr>storage = [''enabled'' \<mapsto> PBool False],
      alarms = [''eye-break-notification'' \<mapsto>
        \<lparr>name = ''eye-break-notification'', scheduledTime = 1200000, periodInMinutes = Num 20\<rparr>],
      origin = ''moz-extension://eye-break/'', calls = []\<rparr>"

definition world_enabled_five :: world where
  "world_enabled_five =
     \<lparr>storage = [''enabled'' \<mapsto> PBool True, ''interval'' \<mapsto> PNum (Num 5),
                 ''message'' \<mapsto> PStr ''Look away''],
      alarms = [''eye-break-notification'' \<mapsto>
        \<lparr>name = ''eye-break-notification'', scheduledTime = 300000, periodInMinutes = Num 5\<rparr>],
      origin = ''moz-extension://eye-break/'', calls = []\<rparr>"

definition ui_off :: ui_state where
  "ui_off = \<lparr>enabled = False, interval = Num 5, message = ''Look away'', nextTime = 0\<rparr>"

definition ui_nan :: ui_state where
  "ui_nan = \<lparr>enabled = True, interval = NaN, message = ''Look away'', nextTime = 0\<rparr>"

definition ui_rest :: ui_state where
  "ui_rest = \<lparr>enabled = True, interval = Num 5, message = ''Rest now'', nextTime = 0\<rparr>"

text \<open>The calls that display a notification.\<close>

fun is_notification :: "call \<Rightarrow> bool" where
  "is_notification (NotificationsCreate ty icon ti msg) = True"
| "is_notification c = False"

declare String_of.simps [simp del]


section \<open>What each function does to the world\<close>


lemma getEnabled_fst:
  "fst (getEnabled w) = (case storage w ''enabled'' of None \<Rightarrow> PBool False | Some v \<Rightarrow> v)"
  by (simp add: getEnabled_def storage_local_get_def split: option.splits)

lemma getEnabled_snd: "snd (getEnabled w) = w\<lparr>calls := calls w @ [StorageGet ''enabled'']\<rparr>"
  by (simp add: getEnabled_def storage_local_get_def split: option.splits)

lemma getInterval_fst:
  "fst (getInterval w) = (case storage w ''interval'' of None \<Rightarrow> PNum (Num 20) | Some v \<Rightarrow> v)"
  by (simp add: getInterval_def storage_local_get_def split: option.splits)

lemma getInterval_snd: "snd (getInterval w) = w\<lparr>calls := calls w @ [StorageGet ''interval'']\<rparr>"
  by (simp add: getInterval_def storage_local_get_def split: option.splits)

lemma getMessage_fst:
  "fst (getMessage w) =
     (case storage w ''message'' of None \<Rightarrow> PStr ''Time to give your eyes a break!'' | Some v \<Rightarrow> v)"
  by (simp add: getMessage_def storage_local_get_def split: option.splits)

lemma getMessage_snd: "snd (getMessage w) = w\<lparr>calls := calls w @ [StorageGet ''message'']\<rparr>"
  by (simp add: getMessage_def storage_local_get_def split: option.splits)

lemma getNextAlarmTime_fst:
  "fst (getNextAlarmTime w) =
     (case alarms w ''eye-break-notification'' of None \<Rightarrow> 0 | Some a \<Rightarrow> scheduledTime a)"
  by (simp add: getNextAlarmTime_def alarms_get_def split: option.splits)

lemma getNextAlarmTime_snd:
  "snd (getNextAlarmTime w) = w\<lparr>calls := calls w @ [AlarmsGet ''eye-break-notification'']\<rparr>"
  by (simp add: getNextAlarmTime_def alarms_get_def split: option.splits)

lemmas getters = getEnabled_fst getEnabled_snd getInterval_fst getInterval_snd
  getMessage_fst getMessage_snd getNextAlarmTime_fst getNextAlarmTime_snd

lemma startupHandler_eq:
  "startupHandler sched w =
     w\<lparr>alarms := (alarms w)(''eye-break-notification'' := None),
       calls := calls w @
         [StorageGet ''enabled'', StorageGet ''interval'',
          AlarmsClear ''eye-break-notification'',
          AlarmsCreate ''eye-break-notification'' (Promise (fst (getInterval w)))]\<rparr>"
  by (simp add: startupHandler_def split_def Let_def getters alarms_clear_def alarms_create_def)

lemma alarmHandler_eq:
  "alarmHandler a w =
     w\<lparr>calls := calls w @
         (if name a \<noteq> ''eye-break-notification''
          then [ConsoleError (''Unexpected alarm name: '' @ name a)] else []) @
         [StorageGet ''message'', RuntimeGetURL ''logo48.png'',
          NotificationsCreate ''basic'' (origin w @ ''logo48.png'') ''Eye Break!''
            (fst (getMessage w))]\<rparr>"
  by (simp add: alarmHandler_def split_def Let_def getters createNotification_def
      runtime_getURL_def notifications_create_def console_error_def)

lemma handleSave_unchanged:
  "\<not> changed ui w \<Longrightarrow>
   handleSave ui sched now w =
     (ui, w\<lparr>storage := saved_storage ui w, calls := calls w @ save_prefix ui\<rparr>)"
  by (simp add: handleSave_def split_def Let_def getters changed_def strict_neq_def
      setEnabled_def setIntervalStorage_def setMessage_def storage_local_set_def
      saved_storage_def save_prefix_def)

lemma handleSave_changed_enabled:
  "changed ui w \<Longrightarrow> enabled ui \<Longrightarrow>
   handleSave ui sched now w =
     (ui\<lparr>nextTime := sched - now\<rparr>,
      w\<lparr>storage := saved_storage ui w,
        alarms := (alarms w)(''eye-break-notification'' \<mapsto>
          \<lparr>name = ''eye-break-notification'', scheduledTime = sched,
           periodInMinutes = interval ui\<rparr>),
        calls := calls w @ save_prefix ui @
          [AlarmsClear ''eye-break-notification'',
           AlarmsCreate ''eye-break-notification'' (Prim (PNum (interval ui))),
           AlarmsGet ''eye-break-notification'']\<rparr>)"
  by (simp add: handleSave_def split_def Let_def getters changed_def strict_neq_def
      setEnabled_def setIntervalStorage_def setMessage_def storage_local_set_def
      saved_storage_def save_prefix_def alarms_clear_def alarms_create_def)

lemma handleSave_changed_disabled:
  "changed ui w \<Longrightarrow> \<not> enabled ui \<Longrightarrow>
   handleSave ui sched now w =
     (ui\<lparr>nextTime := 0 - now\<rparr>,
      w\<lparr>storage := saved_storage ui w,
        alarms := (alarms w)(''eye-break-notification'' := None),
        calls := calls w @ save_prefix ui @
          [AlarmsClear ''eye-break-notification'',
           AlarmsGet ''eye-break-notification'']\<rparr>)"
  by (simp add: handleSave_def split_def Let_def getters changed_def strict_neq_def
      setEnabled_def setIntervalStorage_def setMessage_def storage_local_set_def
      saved_storage_def save_prefix_def alarms_clear_def alarms_create_def)


lemma consistent_fresh: "storage w = Map.empty \<Longrightarrow> alarms w = Map.empty \<Longrightarrow> consistent w"
  by (auto simp: consistent_def getters)

lemma consistent_startup: "consistent w \<Longrightarrow> consistent (startupHandler sched w)"
  by (auto simp: consistent_def startupHandler_eq getters)

lemma consistent_fire: "consistent w \<Longrightarrow> consistent (alarmHandler a w)"
  by (simp add: consistent_def alarmHandler_eq getters)

lemma consistent_poll: "consistent w \<Longrightarrow> consistent (snd (refreshNextTime now ui w))"
  by (simp add: consistent_def refreshNextTime_def split_def getters)

lemma consistent_save:
  assumes "consistent w"
  shows "consistent (snd (handleSave ui sched now w))"
proof (cases "changed ui w")
  case False
  then have same: "fst (getEnabled w) = PBool (enabled ui)"
      "fst (getInterval w) = PNum (interval ui)"
    by (simp_all add: changed_def strict_neq_def)
  from assms same show ?thesis
    by (auto simp: handleSave_unchanged [OF False] consistent_def saved_storage_def getters)
next
  case True
  show ?thesis
  proof (cases "enabled ui")
    case True
    with \<open>changed ui w\<close> assms show ?thesis
      by (auto simp: handleSave_changed_enabled consistent_def saved_storage_def getters)
  next
    case False
    with \<open>changed ui w\<close> assms show ?thesis
      by (auto simp: handleSave_changed_disabled consistent_def saved_storage_def getters)
  qed
qed

lemma reachable_consistent: "reachable w \<Longrightarrow> consistent w"
  by (induction rule: reachable.induct)
     (simp_all add: consistent_fresh consistent_startup consistent_save consistent_fire
        consistent_poll)


section \<open>The alarm invariant\<close>

text \<open>
  What holds in every reachable state: only the alarm \<open>eye-break-notification\<close> can
  exist, an alarm that exists has the stored interval as its period, and none exists
  when the stored \<open>enabled\<close> is false. That an alarm exists when \<open>enabled\<close> is true is
  not part of it.
\<close>

lemma reachable_alarm_agrees:
  assumes "reachable w"
  shows "dom (alarms w) \<subseteq> {''eye-break-notification''} \<and>
         (\<forall>a. alarms w ''eye-break-notification'' = Some a \<longrightarrow>
            fst (getEnabled w) = PBool True \<and>
            PNum (periodInMinutes a) = fst (getInterval w)) \<and>
         (fst (getEnabled w) = PBool False \<longrightarrow> dom (alarms w) = {})"
proof -
  from assms have c: "consistent w" by (rule reachable_consistent)
  then have d: "dom (alarms w) \<subseteq> {''eye-break-notification''}"
    by (simp add: consistent_def)
  from c have a: "\<forall>a. alarms w ''eye-break-notification'' = Some a \<longrightarrow>
      fst (getEnabled w) = PBool True \<and> PNum (periodInMinutes a) = fst (getInterval w)"
    by (simp add: consistent_def)
  have "dom (alarms w) = {}" if off: "fst (getEnabled w) = PBool False"
  proof -
    have "alarms w ''eye-break-notification'' = None"
    proof (cases "alarms w ''eye-break-notification''")
      case None
      then show ?thesis .
    next
      case (Some x)
      with a have "fst (getEnabled w) = PBool True" by simp
      with off show ?thesis by simp
    qed
    with d show ?thesis by auto
  qed
  with d a show ?thesis by blast
qed

text \<open>
  C1. The claim is that in every reachable state, when the stored \<open>enabled\<close> is true,
  the alarm has the stored \<open>interval\<close> as its \<open>periodInMinutes\<close>. From a fresh
  installation, a save of \<open>enabled\<close> true and \<open>interval\<close> 5 creates the alarm with
  period 5. The startup that follows clears it and passes the promise returned by
  \<open>getInterval()\<close> to \<open>alarms.create\<close>, its only call to create. The state reached
  has \<open>enabled\<close> true and \<open>interval\<close> 5 stored, and no alarm.
\<close>

theorem startup_after_enabling_leaves_no_alarm:
  "reachable (startupHandler 600000 (snd (handleSave ui_five 300000 0 world_fresh))) \<and>
   alarms (snd (handleSave ui_five 300000 0 world_fresh)) ''eye-break-notification'' =
     Some \<lparr>name = ''eye-break-notification'', scheduledTime = 300000,
           periodInMinutes = Num 5\<rparr> \<and>
   fst (getEnabled (startupHandler 600000 (snd (handleSave ui_five 300000 0 world_fresh)))) =
     PBool True \<and>
   fst (getInterval (startupHandler 600000 (snd (handleSave ui_five 300000 0 world_fresh)))) =
     PNum (Num 5) \<and>
   alarms (startupHandler 600000 (snd (handleSave ui_five 300000 0 world_fresh)))
     ''eye-break-notification'' = None \<and>
   calls (startupHandler 600000 (snd (handleSave ui_five 300000 0 world_fresh))) =
     [StorageGet ''enabled'', StorageGet ''interval'', StorageGet ''message'',
      StorageSet ''enabled'' (PBool True), StorageSet ''interval'' (PNum (Num 5)),
      StorageSet ''message'' (PStr ''Look away''),
      AlarmsClear ''eye-break-notification'',
      AlarmsCreate ''eye-break-notification'' (Prim (PNum (Num 5))),
      AlarmsGet ''eye-break-notification'',
      StorageGet ''enabled'', StorageGet ''interval'',
      AlarmsClear ''eye-break-notification'',
      AlarmsCreate ''eye-break-notification'' (Promise (PNum (Num 5)))]"
proof -
  have r: "reachable (startupHandler 600000 (snd (handleSave ui_five 300000 0 world_fresh)))"
    by (rule reachable.startup, rule reachable.save, rule reachable.fresh)
       (simp_all add: world_fresh_def)
  have ch: "changed ui_five world_fresh"
    by (simp add: changed_def strict_neq_def getters world_fresh_def ui_five_def)
  have en: "enabled ui_five"
    by (simp add: ui_five_def)
  note sv = handleSave_changed_enabled [OF ch en, of 300000 0]
  from sv have rest:
    "alarms (snd (handleSave ui_five 300000 0 world_fresh)) ''eye-break-notification'' =
       Some \<lparr>name = ''eye-break-notification'', scheduledTime = 300000,
             periodInMinutes = Num 5\<rparr> \<and>
     fst (getEnabled (startupHandler 600000 (snd (handleSave ui_five 300000 0 world_fresh)))) =
       PBool True \<and>
     fst (getInterval (startupHandler 600000 (snd (handleSave ui_five 300000 0 world_fresh)))) =
       PNum (Num 5) \<and>
     alarms (startupHandler 600000 (snd (handleSave ui_five 300000 0 world_fresh)))
       ''eye-break-notification'' = None \<and>
     calls (startupHandler 600000 (snd (handleSave ui_five 300000 0 world_fresh))) =
       [StorageGet ''enabled'', StorageGet ''interval'', StorageGet ''message'',
        StorageSet ''enabled'' (PBool True), StorageSet ''interval'' (PNum (Num 5)),
        StorageSet ''message'' (PStr ''Look away''),
        AlarmsClear ''eye-break-notification'',
        AlarmsCreate ''eye-break-notification'' (Prim (PNum (Num 5))),
        AlarmsGet ''eye-break-notification'',
        StorageGet ''enabled'', StorageGet ''interval'',
        AlarmsClear ''eye-break-notification'',
        AlarmsCreate ''eye-break-notification'' (Promise (PNum (Num 5)))]"
    by (simp add: startupHandler_eq getters saved_storage_def save_prefix_def
        ui_five_def world_fresh_def)
  from r rest show ?thesis by (rule conjI)
qed

section \<open>Startup\<close>

text \<open>
  C2. The claim is that a startup with the stored \<open>enabled\<close> false performs no action.
  The handler tests the promise returned by \<open>getEnabled()\<close>, which is truthy whatever
  it resolves to. At a state with \<open>enabled\<close> stored as false and an alarm present, the
  handler issues \<open>alarms.clear\<close> and \<open>alarms.create\<close>, and the alarm is gone afterwards.
  At a fresh installation, where \<open>enabled\<close> reads as false, it issues the same calls.
\<close>

theorem startup_disabled_clears_alarm:
  "fst (getEnabled world_disabled_alarm) = PBool False \<and>
   alarms world_disabled_alarm ''eye-break-notification'' =
     Some \<lparr>name = ''eye-break-notification'', scheduledTime = 1200000, periodInMinutes = Num 20\<rparr> \<and>
   calls (startupHandler 2400000 world_disabled_alarm) =
     [StorageGet ''enabled'', StorageGet ''interval'',
      AlarmsClear ''eye-break-notification'',
      AlarmsCreate ''eye-break-notification'' (Promise (PNum (Num 20)))] \<and>
   alarms (startupHandler 2400000 world_disabled_alarm) ''eye-break-notification'' = None \<and>
   fst (getEnabled world_fresh) = PBool False \<and>
   calls (startupHandler 2400000 world_fresh) =
     [StorageGet ''enabled'', StorageGet ''interval'',
      AlarmsClear ''eye-break-notification'',
      AlarmsCreate ''eye-break-notification'' (Promise (PNum (Num 20)))]"
  by (simp add: startupHandler_eq getters world_disabled_alarm_def world_fresh_def)

text \<open>
  C3. The claim is that a startup with the stored \<open>enabled\<close> true clears the alarm and
  creates one whose \<open>periodInMinutes\<close> is the stored interval. At a state with
  \<open>enabled\<close> true and \<open>interval\<close> 5, the handler clears the alarm and then passes the
  promise returned by \<open>getInterval()\<close> as \<open>periodInMinutes\<close>, not the number 5; no
  call to \<open>alarms.create\<close> carries the number, and no alarm exists afterwards.
\<close>

theorem startup_enabled_passes_promise:
  "fst (getEnabled world_enabled_five) = PBool True \<and>
   fst (getInterval world_enabled_five) = PNum (Num 5) \<and>
   calls (startupHandler 600000 world_enabled_five) =
     [StorageGet ''enabled'', StorageGet ''interval'',
      AlarmsClear ''eye-break-notification'',
      AlarmsCreate ''eye-break-notification'' (Promise (PNum (Num 5)))] \<and>
   AlarmsCreate ''eye-break-notification'' (Prim (PNum (Num 5)))
     \<notin> set (calls (startupHandler 600000 world_enabled_five)) \<and>
   alarms (startupHandler 600000 world_enabled_five) ''eye-break-notification'' = None"
  by (simp add: startupHandler_eq getters world_enabled_five_def)

section \<open>Saving\<close>

text \<open>
  C4. The claim is that a save of the values currently stored performs no
  \<open>alarms.clear\<close> and no \<open>alarms.create\<close>, as on the second of two consecutive
  identical saves. It fails when the interval is \<open>NaN\<close>: after a first save of \<open>NaN\<close>
  the three stored values are the ones saved again, and the second save still clears
  and creates the alarm, since \<open>NaN !== NaN\<close>.
\<close>

theorem save_nan_twice_recreates_alarm:
  "fst (getEnabled (snd (handleSave ui_nan 300000 0 world_fresh))) = PBool (enabled ui_nan) \<and>
   fst (getInterval (snd (handleSave ui_nan 300000 0 world_fresh))) = PNum (interval ui_nan) \<and>
   fst (getMessage (snd (handleSave ui_nan 300000 0 world_fresh))) = PStr (message ui_nan) \<and>
   calls (snd (handleSave ui_nan 900000 1000 (snd (handleSave ui_nan 300000 0 world_fresh)))) =
     calls (snd (handleSave ui_nan 300000 0 world_fresh)) @
     [StorageGet ''enabled'', StorageGet ''interval'', StorageGet ''message'',
      StorageSet ''enabled'' (PBool True), StorageSet ''interval'' (PNum NaN),
      StorageSet ''message'' (PStr ''Look away''),
      AlarmsClear ''eye-break-notification'',
      AlarmsCreate ''eye-break-notification'' (Prim (PNum NaN)),
      AlarmsGet ''eye-break-notification'']"
proof -
  have en: "enabled ui_nan"
    by (simp add: ui_nan_def)
  have ch: "changed ui_nan w" for w
    by (simp add: changed_def strict_neq_def ui_nan_def)
  have stored: "storage (snd (handleSave ui_nan 300000 0 world_fresh)) =
      saved_storage ui_nan world_fresh"
    by (simp add: handleSave_changed_enabled [OF ch en])
  have second: "calls (snd (handleSave ui_nan 900000 1000 w)) =
      calls w @ save_prefix ui_nan @
      [AlarmsClear ''eye-break-notification'',
       AlarmsCreate ''eye-break-notification'' (Prim (PNum (interval ui_nan))),
       AlarmsGet ''eye-break-notification'']" for w
    by (simp add: handleSave_changed_enabled [OF ch en])
  have vals:
    "fst (getEnabled (snd (handleSave ui_nan 300000 0 world_fresh))) = PBool (enabled ui_nan) \<and>
     fst (getInterval (snd (handleSave ui_nan 300000 0 world_fresh))) = PNum (interval ui_nan) \<and>
     fst (getMessage (snd (handleSave ui_nan 300000 0 world_fresh))) = PStr (message ui_nan)"
    by (simp add: getters stored saved_storage_def)
  from vals second [of "snd (handleSave ui_nan 300000 0 world_fresh)"] show ?thesis
    by (simp add: save_prefix_def ui_nan_def)
qed

text \<open>
  C4, as amended. When the save path runs with the three values the getters currently
  return, and the interval is not \<open>NaN\<close>, it issues the three reads and the three
  writes and nothing else: no \<open>alarms.clear\<close>, no \<open>alarms.create\<close>, and the alarms
  (with their \<open>scheduledTime\<close>) are as before. The second of two consecutive saves of
  the same values, with an interval that is not \<open>NaN\<close>, is such a save, from any state.
\<close>

theorem save_same_values_keeps_alarm:
  "(fst (getEnabled w) = PBool (enabled ui) \<and>
    fst (getInterval w) = PNum (interval ui) \<and>
    fst (getMessage w) = PStr (message ui) \<and>
    interval ui \<noteq> NaN \<longrightarrow>
      alarms (snd (handleSave ui sched now w)) = alarms w \<and>
      calls (snd (handleSave ui sched now w)) =
        calls w @
        [StorageGet ''enabled'', StorageGet ''interval'', StorageGet ''message'',
         StorageSet ''enabled'' (PBool (enabled ui)),
         StorageSet ''interval'' (PNum (interval ui)),
         StorageSet ''message'' (PStr (message ui))]) \<and>
   (interval ui \<noteq> NaN \<longrightarrow>
      alarms (snd (handleSave ui sched' now' (snd (handleSave ui sched now w)))) =
        alarms (snd (handleSave ui sched now w)) \<and>
      calls (snd (handleSave ui sched' now' (snd (handleSave ui sched now w)))) =
        calls (snd (handleSave ui sched now w)) @
        [StorageGet ''enabled'', StorageGet ''interval'', StorageGet ''message'',
         StorageSet ''enabled'' (PBool (enabled ui)),
         StorageSet ''interval'' (PNum (interval ui)),
         StorageSet ''message'' (PStr (message ui))])"
proof -
  have first: "alarms (snd (handleSave ui sched now w)) = alarms w \<and>
      calls (snd (handleSave ui sched now w)) = calls w @ save_prefix ui"
    if "\<not> changed ui w" for w sched now
    using that by (simp add: handleSave_unchanged)
  have after: "\<not> changed ui (snd (handleSave ui sched now w))" if num: "interval ui \<noteq> NaN"
  proof (cases "changed ui w")
    case False
    with num show ?thesis
      by (simp add: handleSave_unchanged changed_def strict_neq_def saved_storage_def getters)
  next
    case True
    with num show ?thesis
      by (cases "enabled ui")
         (simp_all add: handleSave_changed_enabled handleSave_changed_disabled changed_def
            strict_neq_def saved_storage_def getters)
  qed
  have same: "\<not> changed ui w"
    if "fst (getEnabled w) = PBool (enabled ui)" "fst (getInterval w) = PNum (interval ui)"
      "fst (getMessage w) = PStr (message ui)" "interval ui \<noteq> NaN"
    using that by (simp add: changed_def strict_neq_def)
  show ?thesis
    using first [OF after] first [OF same]
    by (simp add: save_prefix_def)
qed

theorem save_same_values_keeps_alarm_witness:
  "fst (getEnabled world_enabled_five) = PBool (enabled ui_five) \<and>
   fst (getInterval world_enabled_five) = PNum (interval ui_five) \<and>
   fst (getMessage world_enabled_five) = PStr (message ui_five) \<and>
   interval ui_five \<noteq> NaN \<and>
   alarms (snd (handleSave ui_five 900000 1000 world_enabled_five)) ''eye-break-notification'' =
     Some \<lparr>name = ''eye-break-notification'', scheduledTime = 300000,
           periodInMinutes = Num 5\<rparr> \<and>
   calls (snd (handleSave ui_five 900000 1000 world_enabled_five)) =
     [StorageGet ''enabled'', StorageGet ''interval'', StorageGet ''message'',
      StorageSet ''enabled'' (PBool True), StorageSet ''interval'' (PNum (Num 5)),
      StorageSet ''message'' (PStr ''Look away'')]"
proof -
  have h: "fst (getEnabled world_enabled_five) = PBool (enabled ui_five) \<and>
      fst (getInterval world_enabled_five) = PNum (interval ui_five) \<and>
      fst (getMessage world_enabled_five) = PStr (message ui_five) \<and>
      interval ui_five \<noteq> NaN"
    by (simp add: getters world_enabled_five_def ui_five_def)
  from h save_same_values_keeps_alarm
    [where w = world_enabled_five and ui = ui_five and sched = 900000 and now = 1000]
  have "alarms (snd (handleSave ui_five 900000 1000 world_enabled_five)) =
          alarms world_enabled_five \<and>
        calls (snd (handleSave ui_five 900000 1000 world_enabled_five)) =
          calls world_enabled_five @
          [StorageGet ''enabled'', StorageGet ''interval'', StorageGet ''message'',
           StorageSet ''enabled'' (PBool (enabled ui_five)),
           StorageSet ''interval'' (PNum (interval ui_five)),
           StorageSet ''message'' (PStr (message ui_five))]"
    by blast
  with h show ?thesis
    by (simp add: world_enabled_five_def ui_five_def)
qed

text \<open>
  C5. When the stored \<open>enabled\<close> is false and the saved \<open>enabled\<close> is true, after the
  save the alarm \<open>eye-break-notification\<close> exists, its \<open>periodInMinutes\<close> is the saved
  interval, which is also the interval now stored; alarms of other names are untouched.
\<close>

theorem save_enabling_creates_alarm:
  assumes "fst (getEnabled w) = PBool False" and "enabled ui"
  shows "alarms (snd (handleSave ui sched now w)) ''eye-break-notification'' =
           Some \<lparr>name = ''eye-break-notification'', scheduledTime = sched,
                 periodInMinutes = interval ui\<rparr> \<and>
         (\<forall>n. n \<noteq> ''eye-break-notification'' \<longrightarrow>
            alarms (snd (handleSave ui sched now w)) n = alarms w n) \<and>
         fst (getEnabled (snd (handleSave ui sched now w))) = PBool True \<and>
         fst (getInterval (snd (handleSave ui sched now w))) = PNum (interval ui)"
proof -
  from assms have "changed ui w" by (simp add: changed_def strict_neq_def)
  with assms(2) show ?thesis
    by (simp add: handleSave_changed_enabled saved_storage_def getters)
qed

theorem save_enabling_creates_alarm_witness:
  "fst (getEnabled world_disabled_alarm) = PBool False \<and> enabled ui_five \<and>
   alarms (snd (handleSave ui_five 900000 1000 world_disabled_alarm)) ''eye-break-notification'' =
     Some \<lparr>name = ''eye-break-notification'', scheduledTime = 900000, periodInMinutes = Num 5\<rparr>"
proof -
  have h1: "fst (getEnabled world_disabled_alarm) = PBool False"
    by (simp add: getters world_disabled_alarm_def)
  have h2: "enabled ui_five" by (simp add: ui_five_def)
  from save_enabling_creates_alarm [OF h1 h2, of 900000 1000] h1 h2 show ?thesis
    by (simp add: ui_five_def)
qed

text \<open>
  C6. When the stored \<open>enabled\<close> is true and the saved \<open>enabled\<close> is false, the save
  clears the alarm \<open>eye-break-notification\<close> and does not create one: no alarm of
  that name exists afterwards.
\<close>

theorem save_disabling_clears_alarm:
  assumes "fst (getEnabled w) = PBool True" and "\<not> enabled ui"
  shows "alarms (snd (handleSave ui sched now w)) ''eye-break-notification'' = None \<and>
         calls (snd (handleSave ui sched now w)) =
           calls w @
           [StorageGet ''enabled'', StorageGet ''interval'', StorageGet ''message'',
            StorageSet ''enabled'' (PBool False),
            StorageSet ''interval'' (PNum (interval ui)),
            StorageSet ''message'' (PStr (message ui)),
            AlarmsClear ''eye-break-notification'',
            AlarmsGet ''eye-break-notification''] \<and>
         fst (getEnabled (snd (handleSave ui sched now w))) = PBool False"
proof -
  from assms have "changed ui w" by (simp add: changed_def strict_neq_def)
  with assms(2) show ?thesis
    by (simp add: handleSave_changed_disabled saved_storage_def save_prefix_def getters)
qed

theorem save_disabling_clears_alarm_witness:
  "fst (getEnabled world_enabled_five) = PBool True \<and> \<not> enabled ui_off \<and>
   alarms world_enabled_five ''eye-break-notification'' \<noteq> None \<and>
   alarms (snd (handleSave ui_off 900000 1000 world_enabled_five)) ''eye-break-notification'' = None"
proof -
  have h1: "fst (getEnabled world_enabled_five) = PBool True"
    by (simp add: getters world_enabled_five_def)
  have h2: "\<not> enabled ui_off" by (simp add: ui_off_def)
  from save_disabling_clears_alarm [OF h1 h2, of 900000 1000] h1 h2 show ?thesis
    by (simp add: world_enabled_five_def)
qed

text \<open>
  C7. When only the message differs from the stored settings, with \<open>enabled\<close> true
  before and after and the same interval, the save still issues \<open>alarms.clear\<close> and
  then \<open>alarms.create\<close>; afterwards the alarm exists with the unchanged interval as
  its \<open>periodInMinutes\<close>, the period of the alarm it replaces.
\<close>

theorem save_message_only_recreates_alarm:
  assumes "fst (getEnabled w) = PBool True" and "enabled ui"
    and "fst (getInterval w) = PNum (interval ui)"
    and "fst (getMessage w) \<noteq> PStr (message ui)"
  shows "calls (snd (handleSave ui sched now w)) =
           calls w @
           [StorageGet ''enabled'', StorageGet ''interval'', StorageGet ''message'',
            StorageSet ''enabled'' (PBool True),
            StorageSet ''interval'' (PNum (interval ui)),
            StorageSet ''message'' (PStr (message ui)),
            AlarmsClear ''eye-break-notification'',
            AlarmsCreate ''eye-break-notification'' (Prim (PNum (interval ui))),
            AlarmsGet ''eye-break-notification''] \<and>
         alarms (snd (handleSave ui sched now w)) ''eye-break-notification'' =
           Some \<lparr>name = ''eye-break-notification'', scheduledTime = sched,
                 periodInMinutes = interval ui\<rparr> \<and>
         fst (getInterval (snd (handleSave ui sched now w))) = fst (getInterval w) \<and>
         (\<forall>a. alarms w ''eye-break-notification'' = Some a \<and>
               PNum (periodInMinutes a) = fst (getInterval w) \<longrightarrow>
            (\<exists>a'. alarms (snd (handleSave ui sched now w)) ''eye-break-notification'' = Some a' \<and>
                  periodInMinutes a' = periodInMinutes a))"
proof -
  from assms(4) have "changed ui w" by (simp add: changed_def strict_neq_def)
  with assms(1-3) show ?thesis
    by (simp add: handleSave_changed_enabled saved_storage_def save_prefix_def getters)
qed

theorem save_message_only_recreates_alarm_witness:
  "fst (getEnabled world_enabled_five) = PBool True \<and> enabled ui_rest \<and>
   fst (getInterval world_enabled_five) = PNum (interval ui_rest) \<and>
   fst (getMessage world_enabled_five) \<noteq> PStr (message ui_rest) \<and>
   alarms (snd (handleSave ui_rest 900000 1000 world_enabled_five)) ''eye-break-notification'' =
     Some \<lparr>name = ''eye-break-notification'', scheduledTime = 900000, periodInMinutes = Num 5\<rparr>"
proof -
  have h1: "fst (getEnabled world_enabled_five) = PBool True"
    by (simp add: getters world_enabled_five_def)
  have h2: "enabled ui_rest" by (simp add: ui_rest_def)
  have h3: "fst (getInterval world_enabled_five) = PNum (interval ui_rest)"
    by (simp add: getters world_enabled_five_def ui_rest_def)
  have h4: "fst (getMessage world_enabled_five) \<noteq> PStr (message ui_rest)"
    by (simp add: getters world_enabled_five_def ui_rest_def)
  from save_message_only_recreates_alarm [OF h1 h2 h3 h4, of 900000 1000] h1 h2 h3 h4
  show ?thesis
    by (simp add: ui_rest_def)
qed

section \<open>The alarm fires\<close>

text \<open>
  C8. For every fired alarm, whatever its name, the handler creates exactly one
  notification, with the title \<open>Eye Break!\<close> and the message stored at that moment (the
  default when none is stored). An unexpected name adds one \<open>console.error\<close> before
  it and changes nothing else. The store and the alarms are untouched.
\<close>

theorem alarmHandler_notifies_once:
  "calls (alarmHandler a w) =
     calls w @
     (if name a \<noteq> ''eye-break-notification''
      then [ConsoleError (''Unexpected alarm name: '' @ name a)] else []) @
     [StorageGet ''message'', RuntimeGetURL ''logo48.png'',
      NotificationsCreate ''basic'' (origin w @ ''logo48.png'') ''Eye Break!''
        (case storage w ''message'' of
           None \<Rightarrow> PStr ''Time to give your eyes a break!'' | Some v \<Rightarrow> v)] \<and>
   filter is_notification (drop (length (calls w)) (calls (alarmHandler a w))) =
     [NotificationsCreate ''basic'' (origin w @ ''logo48.png'') ''Eye Break!''
        (case storage w ''message'' of
           None \<Rightarrow> PStr ''Time to give your eyes a break!'' | Some v \<Rightarrow> v)] \<and>
   storage (alarmHandler a w) = storage w \<and>
   alarms (alarmHandler a w) = alarms w"
  by (simp add: alarmHandler_eq getters)

theorem alarmHandler_notifies_once_witness:
  "calls (alarmHandler \<lparr>name = ''other'', scheduledTime = 0, periodInMinutes = Num 1\<rparr>
            world_enabled_five) =
     [ConsoleError ''Unexpected alarm name: other'',
      StorageGet ''message'', RuntimeGetURL ''logo48.png'',
      NotificationsCreate ''basic'' ''moz-extension://eye-break/logo48.png'' ''Eye Break!''
        (PStr ''Look away'')] \<and>
   calls (alarmHandler \<lparr>name = ''eye-break-notification'', scheduledTime = 0,
            periodInMinutes = Num 1\<rparr> world_fresh) =
     [StorageGet ''message'', RuntimeGetURL ''logo48.png'',
      NotificationsCreate ''basic'' ''moz-extension://eye-break/logo48.png'' ''Eye Break!''
        (PStr ''Time to give your eyes a break!'')]"
  using alarmHandler_notifies_once
      [of "\<lparr>name = ''other'', scheduledTime = 0, periodInMinutes = Num 1\<rparr>" world_enabled_five]
    alarmHandler_notifies_once
      [of "\<lparr>name = ''eye-break-notification'', scheduledTime = 0, periodInMinutes = Num 1\<rparr>"
          world_fresh]
  by (simp add: world_enabled_five_def world_fresh_def)

section \<open>The getters\<close>

text \<open>
  C9. With the key absent from the store, \<open>getEnabled\<close> returns false, \<open>getInterval\<close>
  returns 20 and \<open>getMessage\<close> returns the default message; with the key present,
  each returns the stored value.
\<close>

theorem getters_return_default_or_stored:
  "(storage w ''enabled'' = None \<longrightarrow> fst (getEnabled w) = PBool False) \<and>
   (storage w ''interval'' = None \<longrightarrow> fst (getInterval w) = PNum (Num 20)) \<and>
   (storage w ''message'' = None \<longrightarrow>
      fst (getMessage w) = PStr ''Time to give your eyes a break!'') \<and>
   (\<forall>v. storage w ''enabled'' = Some v \<longrightarrow> fst (getEnabled w) = v) \<and>
   (\<forall>v. storage w ''interval'' = Some v \<longrightarrow> fst (getInterval w) = v) \<and>
   (\<forall>v. storage w ''message'' = Some v \<longrightarrow> fst (getMessage w) = v)"
  by (simp add: getEnabled_def getInterval_def getMessage_def storage_local_get_def)

theorem getters_return_default_or_stored_witness:
  "storage world_disabled_alarm ''enabled'' = Some (PBool False) \<and>
   storage world_disabled_alarm ''interval'' = None \<and>
   storage world_disabled_alarm ''message'' = None \<and>
   fst (getEnabled world_disabled_alarm) = PBool False \<and>
   fst (getInterval world_disabled_alarm) = PNum (Num 20) \<and>
   fst (getMessage world_disabled_alarm) = PStr ''Time to give your eyes a break!'' \<and>
   storage world_enabled_five ''interval'' = Some (PNum (Num 5)) \<and>
   fst (getInterval world_enabled_five) = PNum (Num 5)"
  using getters_return_default_or_stored [of world_disabled_alarm]
    getters_return_default_or_stored [of world_enabled_five]
  by (simp add: world_disabled_alarm_def world_enabled_five_def)

section \<open>The countdown\<close>

text \<open>
  C10. When no alarm \<open>eye-break-notification\<close> exists, \<open>getNextAlarmTime\<close> returns 0;
  with a clock that is not negative, the difference stored in \<open>nextTime\<close> is then
  \<open>0 - now\<close>, which is not positive, and the view renders no countdown.
\<close>

theorem no_alarm_no_countdown:
  assumes "alarms w ''eye-break-notification'' = None" and "0 \<le> now"
  shows "fst (getNextAlarmTime w) = 0 \<and>
         nextTime (fst (refreshNextTime now ui w)) = 0 - now \<and>
         nextTime (fst (refreshNextTime now ui w)) \<le> 0 \<and>
         countdown (nextTime (fst (refreshNextTime now ui w))) = None"
  using assms by (simp add: refreshNextTime_def split_def getters countdown_def)

theorem no_alarm_no_countdown_witness:
  "alarms world_fresh ''eye-break-notification'' = None \<and> (0::int) \<le> 1000 \<and>
   fst (getNextAlarmTime world_fresh) = 0 \<and>
   nextTime (fst (refreshNextTime 1000 ui_five world_fresh)) = - 1000 \<and>
   countdown (nextTime (fst (refreshNextTime 1000 ui_five world_fresh))) = None"
proof -
  have h1: "alarms world_fresh ''eye-break-notification'' = None"
    by (simp add: world_fresh_def)
  have h2: "(0::int) \<le> 1000" by simp
  from no_alarm_no_countdown [OF h1 h2, of ui_five] h1 show ?thesis by auto
qed

end
